theory Spec2Isabelle
  imports Complex_Main "HOL-Library.Sublist"
begin

section \<open>Python values used by the two programs\<close>

subsection \<open>Strings\<close>

text \<open>
  A Python \<open>str\<close> is a sequence of code points. The model keeps the code points below
  256, one \<open>char\<close> each, so \<open>length\<close> counts what Python's \<open>len\<close> counts. The character
  classes below are Python's on that range: \<open>str.isspace\<close> (used by \<open>strip\<close> and
  \<open>split\<close>), \<open>str.isdigit\<close> (which also accepts the superscript digits U+00B2, U+00B3
  and U+00B9) and \<open>str.lower\<close>.
\<close>

definition code_point :: "char \<Rightarrow> nat" where
  "code_point c = of_char c"

definition isspace :: "char \<Rightarrow> bool" where
  "isspace c = (let n = code_point c
     in (9 \<le> n \<and> n \<le> 13) \<or> (28 \<le> n \<and> n \<le> 32) \<or> n = 133 \<or> n = 160)"

definition py_strip :: "string \<Rightarrow> string" where
  "py_strip s = rev (dropWhile isspace (rev (dropWhile isspace s)))"

text \<open>\<open>s.split(maxsplit=1)\<close>: no part for a blank string, else the first run of
  non-blank characters and, when something follows the blanks after it, the whole rest.\<close>

definition py_split1 :: "string \<Rightarrow> string list" where
  "py_split1 s =
     (let s1 = dropWhile isspace s
      in if s1 = [] then []
         else let tok = takeWhile (\<lambda>c. \<not> isspace c) s1;
                  r = dropWhile isspace (dropWhile (\<lambda>c. \<not> isspace c) s1)
              in if r = [] then [tok] else [tok, r])"

definition lower_char :: "char \<Rightarrow> char" where
  "lower_char c = (let n = code_point c
     in if (65 \<le> n \<and> n \<le> 90) \<or> (192 \<le> n \<and> n \<le> 222 \<and> n \<noteq> 215)
        then char_of (n + 32) else c)"

definition py_lower :: "string \<Rightarrow> string" where
  "py_lower s = map lower_char s"

definition isdigit_char :: "char \<Rightarrow> bool" where
  "isdigit_char c = (let n = code_point c
     in (48 \<le> n \<and> n \<le> 57) \<or> n = 178 \<or> n = 179 \<or> n = 185)"

definition py_isdigit :: "string \<Rightarrow> bool" where
  "py_isdigit s = (s \<noteq> [] \<and> list_all isdigit_char s)"

text \<open>\<open>t in s\<close> on strings: \<open>t\<close> occurs in \<open>s\<close> as a contiguous block.\<close>

fun startswith :: "string \<Rightarrow> string \<Rightarrow> bool" where
  "startswith s [] = True"
| "startswith [] (c # t) = False"
| "startswith (d # s) (c # t) = (d = c \<and> startswith s t)"

fun py_in :: "string \<Rightarrow> string \<Rightarrow> bool" where
  "py_in t [] = (t = [])"
| "py_in t (c # s) = (startswith (c # s) t \<or> py_in t s)"

subsection \<open>Exceptions\<close>

datatype exn =
    IndexError
  | ValueError
  | EOFError
  | FileNotFoundError
  | PermissionError
  | JSONDecodeError
  | OverflowError
  | KeyError
  | TypeError
  | ZeroDivisionError
  | RecursionError

subsection \<open>Integers and their decimal text\<close>

definition is_decimal :: "char \<Rightarrow> bool" where
  "is_decimal c = (48 \<le> code_point c \<and> code_point c \<le> 57)"

definition digit_value :: "char \<Rightarrow> int" where
  "digit_value c = int (code_point c) - 48"

text \<open>The blanks \<open>int(...)\<close> skips around the number: the ASCII blanks and the two blanks
  above 127; unlike \<open>strip\<close>, not the separators U+001C to U+001F.\<close>

definition int_space :: "char \<Rightarrow> bool" where
  "int_space c = (let n = code_point c
     in (9 \<le> n \<and> n \<le> 13) \<or> n = 32 \<or> n = 133 \<or> n = 160)"

fun int_digits :: "int \<Rightarrow> string \<Rightarrow> int option" where
  "int_digits acc [] = Some acc"
| "int_digits acc (c # cs) =
     (if is_decimal c then int_digits (10 * acc + digit_value c) cs
      else if c = CHR ''_'' then
        (case cs of
           [] \<Rightarrow> None
         | d # ds \<Rightarrow> if is_decimal d then int_digits (10 * acc + digit_value d) ds else None)
      else None)"

definition int_magnitude :: "string \<Rightarrow> int option" where
  "int_magnitude s =
     (case s of
        [] \<Rightarrow> None
      | c # cs \<Rightarrow> if is_decimal c then int_digits (digit_value c) cs else None)"

text \<open>The interpreter converts between an integer and its decimal text only up to this
  many digits (\<open>sys.get_int_max_str_digits()\<close>, 4300 unless it is configured otherwise);
  beyond it the conversion raises \<open>ValueError\<close>.\<close>

definition max_str_digits :: nat where
  "max_str_digits = 4300"

text \<open>\<open>int(s)\<close> for a string: blanks around, an optional sign, then decimal digits that
  single underscores may separate. Anything else raises \<open>ValueError\<close>, and so does a text
  of more than \<open>max_str_digits\<close> digits (leading zeros count).\<close>

definition py_int :: "string \<Rightarrow> exn + int" where
  "py_int s =
     (let t = rev (dropWhile int_space (rev (dropWhile int_space s)));
          r = (case t of
                 [] \<Rightarrow> None
               | c # cs \<Rightarrow>
                   if c = CHR ''+'' then int_magnitude cs
                   else if c = CHR ''-'' then map_option uminus (int_magnitude cs)
                   else int_magnitude t)
      in case r of
           None \<Rightarrow> Inl ValueError
         | Some v \<Rightarrow>
             if max_str_digits < length (filter is_decimal t) then Inl ValueError else Inr v)"

definition digit_char :: "nat \<Rightarrow> char" where
  "digit_char d = ''0123456789'' ! d"

fun str_nat :: "nat \<Rightarrow> string" where
  "str_nat n = (if n < 10 then [digit_char n] else str_nat (n div 10) @ [digit_char (n mod 10)])"

declare str_nat.simps [simp del]

definition str_int :: "int \<Rightarrow> string" where
  "str_int i = (if i < 0 then CHR ''-'' # str_nat (nat (- i)) else str_nat (nat i))"

subsection \<open>Floating-point numbers\<close>

text \<open>
  A Python \<open>float\<close> is an IEEE 754 double. The model keeps its sign and its magnitude as an
  exact rational; every operation computes the exact result and rounds it to the nearest
  double, ties to even (53 significant bits, subnormals below \<open>2^-1022\<close>). A result of
  \<open>2^1024\<close> or more overflows.
\<close>

datatype pyfloat = Finite bool rat | Infinite bool

definition round_half_even :: "rat \<Rightarrow> int" where
  "round_half_even x =
     (let f = \<lfloor>x\<rfloor>; d = x - of_int f
      in if d < 1 / 2 then f else if 1 / 2 < d then f + 1 else if even f then f else f + 1)"

definition pow2 :: "int \<Rightarrow> rat" where
  "pow2 k = (if 0 \<le> k then 2 ^ nat k else 1 / 2 ^ nat (- k))"

function halvings :: "rat \<Rightarrow> nat" where
  "halvings x = (if x < 2 then 0 else Suc (halvings (x / 2)))"
  by pat_completeness auto
termination
proof (relation "measure (\<lambda>x. nat \<lfloor>x\<rfloor>)")
  show "wf (measure (\<lambda>x::rat. nat \<lfloor>x\<rfloor>))" by simp
next
  fix x :: rat
  assume "\<not> x < 2"
  then have "x / 2 \<le> x - 1" and "1 \<le> x" by simp_all
  then have "\<lfloor>x / 2\<rfloor> \<le> \<lfloor>x\<rfloor> - 1" and "1 \<le> \<lfloor>x\<rfloor>"
    by (metis floor_mono floor_diff_one, simp)
  then show "(x / 2, x) \<in> measure (\<lambda>x. nat \<lfloor>x\<rfloor>)" by simp
qed

declare halvings.simps [simp del]

function binade_down :: "int \<Rightarrow> rat \<Rightarrow> int" where
  "binade_down e x = (if 1 \<le> x \<or> e \<le> - 1022 then e else binade_down (e - 1) (2 * x))"
  by pat_completeness auto
termination
  by (relation "measure (\<lambda>(e, x). nat (e + 1022))") auto

declare binade_down.simps [simp del]

text \<open>The binary exponent of a positive magnitude, not below that of the subnormals.\<close>

definition binade :: "rat \<Rightarrow> int" where
  "binade x = (if 1 \<le> x then int (halvings x) else binade_down 0 x)"

definition round_double :: "rat \<Rightarrow> rat" where
  "round_double x =
     (if x = 0 then 0
      else let u = pow2 (binade x - 52) in of_int (round_half_even (x / u)) * u)"

definition overflows :: "rat \<Rightarrow> bool" where
  "overflows x = (2 ^ 1024 \<le> x)"

text \<open>\<open>a / b\<close> on integers: the correctly rounded quotient; \<open>0 / -1\<close> is \<open>-0.0\<close>.\<close>

definition truediv :: "int \<Rightarrow> int \<Rightarrow> exn + pyfloat" where
  "truediv a b =
     (if b = 0 then Inl ZeroDivisionError
      else let r = round_double (of_int \<bar>a\<bar> / of_int \<bar>b\<bar>)
           in if overflows r then Inl OverflowError else Inr (Finite ((a < 0) \<noteq> (b < 0)) r))"

text \<open>\<open>x * n\<close> for a float and a non-negative integer that is itself a double.\<close>

definition float_mul :: "pyfloat \<Rightarrow> nat \<Rightarrow> pyfloat" where
  "float_mul x n =
     (case x of
        Infinite s \<Rightarrow> Infinite s
      | Finite s m \<Rightarrow>
          let r = round_double (m * of_nat n)
          in if overflows r then Infinite s else Finite s r)"

text \<open>The format \<open>.1f\<close>: the exact value rounded to tenths, ties to even.\<close>

definition format_1f :: "pyfloat \<Rightarrow> string" where
  "format_1f x =
     (case x of
        Infinite s \<Rightarrow> (if s then ''-inf'' else ''inf'')
      | Finite s m \<Rightarrow>
          let t = nat (round_half_even (m * 10))
          in (if s then ''-'' else []) @ str_nat (t div 10) @ ''.'' @ str_nat (t mod 10))"

section \<open>The catalogue\<close>

text \<open>
  A joke is the dictionary the admin program builds for a new joke: the keys \<open>setup\<close>,
  \<open>punchline\<close>, \<open>laughs\<close> and \<open>groans\<close>, in this order, two strings and two integers. The
  catalogue (\<open>data\<close> in both programs) is a list of them.
\<close>

record joke =
  "setup" :: string
  punchline :: string
  laughs :: int
  groans :: int

subsection \<open>What the view command prints about the ratings (admin.py, lines 150 to 170)\<close>

definition percentage :: "int \<Rightarrow> int \<Rightarrow> exn + pyfloat" where
  "percentage count tot =
     (if tot \<noteq> 0
      then (case truediv count tot of Inl e \<Rightarrow> Inl e | Inr q \<Rightarrow> Inr (float_mul q 100))
      else Inr (Finite False 0))"

definition hilarious :: string where
  "hilarious = ''This joke is hilarious!''"

definition groantastic :: string where
  "groantastic = ''This joke is groantastic!''"

definition commentary :: "int \<Rightarrow> int \<Rightarrow> string list" where
  "commentary l g =
     (if 5 \<le> l \<and> g = 0 then [hilarious]
      else if 5 \<le> g \<and> l = 0 then [groantastic]
      else if 4 * g \<le> l \<and> 0 < g then [hilarious]
      else if 4 * l \<le> g \<and> 0 < l then [groantastic]
      else [])"

definition stats_line :: "int \<Rightarrow> pyfloat \<Rightarrow> int \<Rightarrow> pyfloat \<Rightarrow> string" where
  "stats_line l lp g gp =
     ''Laughs: '' @ str_int l @ '' ('' @ format_1f lp @ ''%), Groans: '' @ str_int g
       @ '' ('' @ format_1f gp @ ''%)''"

definition not_rated :: string where
  "not_rated = ''This joke has not been rated.''"

text \<open>The lines printed for the joke found at a valid index, or the exception that ends
  the program.\<close>

definition view_joke :: "joke \<Rightarrow> exn + string list" where
  "view_joke j =
     (let head_line = CHR 0x0A # setup j @ CHR 0x0A # punchline j;
          l = laughs j; g = groans j
      in if l = 0 \<and> g = 0 then Inr [head_line, not_rated]
         else let tot = l + g
              in case percentage l tot of
                   Inl e \<Rightarrow> Inl e
                 | Inr lp \<Rightarrow>
                     (case percentage g tot of
                        Inl e \<Rightarrow> Inl e
                      | Inr gp \<Rightarrow> Inr ([head_line, stats_line l lp g gp] @ commentary l g)))"

section \<open>The backing file\<close>

subsection \<open>JSON text as \<open>json.dump(data, file, indent=4)\<close> writes it\<close>

text \<open>
  Both programs write the catalogue with \<open>json.dump(..., indent=4)\<close>: an empty list is
  \<open>[]\<close>; otherwise every joke is an object of four members on lines of their own,
  indented by four and eight blanks, items separated by a comma at the line's end. A
  string is written between double quotes; the quote, the backslash and every character
  outside the printable ASCII range are escaped (\<open>ensure_ascii\<close> is on by default).
  An integer is written by \<open>int.__repr__\<close>, which raises \<open>ValueError\<close> for an integer of
  more than \<open>max_str_digits\<close> digits; \<open>json_text\<close> is the text when no counter is that
  long.
\<close>

definition dq :: char where
  "dq = CHR 0x22"

definition bs :: char where
  "bs = CHR 0x5C"

definition nl :: char where
  "nl = CHR 0x0A"

definition hex_digit :: "nat \<Rightarrow> char" where
  "hex_digit d = ''0123456789abcdef'' ! d"

definition escape_char :: "char \<Rightarrow> string" where
  "escape_char c =
     (let n = code_point c
      in if c = dq then [bs, dq]
         else if c = bs then [bs, bs]
         else if n = 10 then [bs, CHR ''n'']
         else if n = 13 then [bs, CHR ''r'']
         else if n = 9 then [bs, CHR ''t'']
         else if n = 8 then [bs, CHR ''b'']
         else if n = 12 then [bs, CHR ''f'']
         else if 32 \<le> n \<and> n \<le> 126 then [c]
         else [bs, CHR ''u'', CHR ''0'', CHR ''0'', hex_digit (n div 16), hex_digit (n mod 16)])"

definition json_string :: "string \<Rightarrow> string" where
  "json_string s = dq # concat (map escape_char s) @ [dq]"

definition member_text :: "string \<Rightarrow> string \<Rightarrow> string" where
  "member_text k v = nl # replicate 8 CHR '' '' @ json_string k @ '': '' @ v"

definition joke_text :: "joke \<Rightarrow> string" where
  "joke_text j =
     ''{'' @ member_text ''setup'' (json_string (setup j)) @ '',''
       @ member_text ''punchline'' (json_string (punchline j)) @ '',''
       @ member_text ''laughs'' (str_int (laughs j)) @ '',''
       @ member_text ''groans'' (str_int (groans j))
       @ nl # replicate 4 CHR '' '' @ ''}''"

fun items_text :: "joke list \<Rightarrow> string" where
  "items_text [] = []"
| "items_text [j] = nl # replicate 4 CHR '' '' @ joke_text j"
| "items_text (j # k # js) = nl # replicate 4 CHR '' '' @ joke_text j @ '','' @ items_text (k # js)"

definition json_text :: "joke list \<Rightarrow> string" where
  "json_text js = (if js = [] then ''[]'' else ''['' @ items_text js @ [nl] @ '']'')"

definition digits_exceed :: "int \<Rightarrow> bool" where
  "digits_exceed i = (max_str_digits < length (str_nat (nat \<bar>i\<bar>)))"

definition json_dump :: "joke list \<Rightarrow> exn + string" where
  "json_dump js =
     (if list_ex (\<lambda>j. digits_exceed (laughs j) \<or> digits_exceed (groans j)) js
      then Inl ValueError
      else Inr (json_text js))"

subsection \<open>JSON text as \<open>json.load\<close> reads it\<close>

text \<open>
  The value \<open>json.load\<close> builds: \<open>None\<close>, a \<open>bool\<close>, an \<open>int\<close>, a \<open>float\<close> (kept as the
  text it was read from; \<open>NaN\<close>, \<open>Infinity\<close> and \<open>-Infinity\<close> are accepted), a \<open>str\<close> (its
  code points: an escape \<open>\u....\<close> may name any of them), a \<open>list\<close> or a \<open>dict\<close> (the keys
  in the order of their first occurrence, a repeated key keeping its last value).
\<close>

datatype json =
    JNull
  | JBool bool
  | JInt int
  | JFloat string
  | JStr "nat list"
  | JArr "json list"
  | JObj "(nat list \<times> json) list"

definition json_ws :: "char \<Rightarrow> bool" where
  "json_ws c = (c = CHR '' '' \<or> c = CHR 0x09 \<or> c = CHR 0x0A \<or> c = CHR 0x0D)"

definition skip_ws :: "string \<Rightarrow> string" where
  "skip_ws s = dropWhile json_ws s"

definition hex_value :: "char \<Rightarrow> nat option" where
  "hex_value c =
     (let n = code_point c
      in if 48 \<le> n \<and> n \<le> 57 then Some (n - 48)
         else if 97 \<le> n \<and> n \<le> 102 then Some (n - 87)
         else if 65 \<le> n \<and> n \<le> 70 then Some (n - 55)
         else None)"

text \<open>Four hexadecimal digits at the head of the text.\<close>

definition hex4 :: "string \<Rightarrow> nat option" where
  "hex4 s =
     (case map hex_value (take 4 s) of
        [Some a, Some b, Some c, Some d] \<Rightarrow> Some (((a * 16 + b) * 16 + c) * 16 + d)
      | _ \<Rightarrow> None)"

definition simple_escape :: "char \<Rightarrow> nat option" where
  "simple_escape e =
     (if e = dq then Some 34
      else if e = bs then Some 92
      else if e = CHR ''/'' then Some 47
      else if e = CHR ''b'' then Some 8
      else if e = CHR ''f'' then Some 12
      else if e = CHR ''n'' then Some 10
      else if e = CHR ''r'' then Some 13
      else if e = CHR ''t'' then Some 9
      else None)"

text \<open>The string after its opening quote: the code points up to the closing quote, and
  the text after it. A control character, an unknown escape and the end of the text before
  the closing quote are errors. A high surrogate followed by an escaped low surrogate is
  one code point.\<close>

fun scanstring :: "nat list \<Rightarrow> string \<Rightarrow> (nat list \<times> string) option" where
  "scanstring acc [] = None"
| "scanstring acc (c # cs) =
     (if c = dq then Some (acc, cs)
      else if c = bs then
        (case cs of
           [] \<Rightarrow> None
         | e # es \<Rightarrow>
             if e = CHR ''u'' then
               (case hex4 es of
                  None \<Rightarrow> None
                | Some u \<Rightarrow>
                    (case (if 55296 \<le> u \<and> u \<le> 56319 \<and> take 2 (drop 4 es) = [bs, CHR ''u'']
                           then hex4 (drop 6 es) else None) of
                       Some v \<Rightarrow>
                         if 56320 \<le> v \<and> v \<le> 57343
                         then scanstring (acc @ [65536 + ((u - 55296) * 1024 + (v - 56320))])
                                (drop 10 es)
                         else scanstring (acc @ [u]) (drop 4 es)
                     | None \<Rightarrow> scanstring (acc @ [u]) (drop 4 es)))
             else
               (case simple_escape e of
                  None \<Rightarrow> None
                | Some d \<Rightarrow> scanstring (acc @ [d]) es))
      else if code_point c < 32 then None
      else scanstring (acc @ [code_point c]) cs)"

fun digits_int :: "int \<Rightarrow> string \<Rightarrow> int" where
  "digits_int acc [] = acc"
| "digits_int acc (c # cs) = digits_int (10 * acc + digit_value c) cs"

text \<open>A number: an optional minus, \<open>0\<close> or digits that do not start with \<open>0\<close>, then a
  fraction and an exponent when they are complete. With neither it is an \<open>int\<close>, which
  \<open>int(...)\<close> builds from the digits: more than \<open>max_str_digits\<close> of them raise
  \<open>ValueError\<close>. The result is \<open>None\<close> when no number starts the text.\<close>

definition scan_number :: "string \<Rightarrow> (exn + json \<times> string) option" where
  "scan_number s =
     (let neg = (s \<noteq> [] \<and> hd s = CHR ''-'');
          s1 = (if neg then tl s else s);
          ds = takeWhile is_decimal s1
      in if ds = [] then None
         else
           let ip = (if hd ds = CHR ''0'' then ''0'' else ds);
               r1 = drop (length ip) s1;
               fd = (case r1 of
                       [] \<Rightarrow> []
                     | c # r \<Rightarrow> if c = CHR ''.'' then takeWhile is_decimal r else []);
               fr = (if fd = [] then [] else CHR ''.'' # fd);
               r2 = drop (length fr) r1;
               ex = (case r2 of
                       [] \<Rightarrow> []
                     | c # r \<Rightarrow>
                         if c = CHR ''e'' \<or> c = CHR ''E'' then
                           (case r of
                              [] \<Rightarrow> []
                            | g # r' \<Rightarrow>
                                if g = CHR ''+'' \<or> g = CHR ''-'' then
                                  (if takeWhile is_decimal r' = [] then []
                                   else c # g # takeWhile is_decimal r')
                                else if takeWhile is_decimal r = [] then []
                                else c # takeWhile is_decimal r)
                         else []);
               r3 = drop (length ex) r2
           in if fr = [] \<and> ex = []
              then (if max_str_digits < length ip then Some (Inl ValueError)
                    else Some (Inr (JInt (if neg then - digits_int 0 ip else digits_int 0 ip), r3)))
              else Some (Inr (JFloat ((if neg then ''-'' else []) @ ip @ fr @ ex), r3)))"

text \<open>A key stored as Python's \<open>dict\<close> stores it.\<close>

fun dict_set :: "(nat list \<times> json) list \<Rightarrow> nat list \<Rightarrow> json \<Rightarrow> (nat list \<times> json) list" where
  "dict_set [] k v = [(k, v)]"
| "dict_set ((k', v') # d) k v = (if k' = k then (k, v) # d else (k', v') # dict_set d k v)"

text \<open>
  The value at the head of the text and the text after it. The decoder is recursive. Its
  second argument is the number of lists and objects that may still be entered one inside
  the other: each call into a list or an object counts against the interpreter's recursion
  limit (1000 unless it is configured otherwise, less what the calls that lead to the
  decoder have used), and one nesting too many raises \<open>RecursionError\<close> at its opening
  bracket. The first argument bounds the number of calls; \<open>json_loads\<close> starts it with more
  than a text of that length can use.
\<close>

fun scan_once :: "nat \<Rightarrow> nat \<Rightarrow> string \<Rightarrow> exn + json \<times> string"
  and scan_array :: "nat \<Rightarrow> nat \<Rightarrow> json list \<Rightarrow> string \<Rightarrow> exn + json \<times> string"
  and scan_object ::
    "nat \<Rightarrow> nat \<Rightarrow> (nat list \<times> json) list \<Rightarrow> string \<Rightarrow> exn + json \<times> string"
where
  "scan_once 0 d s = Inl JSONDecodeError"
| "scan_once (Suc n) d s =
     (case s of
        [] \<Rightarrow> Inl JSONDecodeError
      | c # cs \<Rightarrow>
          if c = dq then
            (case scanstring [] cs of
               None \<Rightarrow> Inl JSONDecodeError
             | Some (t, r) \<Rightarrow> Inr (JStr t, r))
          else if c = CHR ''{'' then
            (case d of
               0 \<Rightarrow> Inl RecursionError
             | Suc d' \<Rightarrow>
                 (case skip_ws cs of
                    [] \<Rightarrow> Inl JSONDecodeError
                  | e # r \<Rightarrow>
                      if e = CHR ''}'' then Inr (JObj [], r) else scan_object n d' [] (e # r)))
          else if c = CHR ''['' then
            (case d of
               0 \<Rightarrow> Inl RecursionError
             | Suc d' \<Rightarrow>
                 (case skip_ws cs of
                    [] \<Rightarrow> Inl JSONDecodeError
                  | e # r \<Rightarrow>
                      if e = CHR '']'' then Inr (JArr [], r) else scan_array n d' [] (e # r)))
          else if startswith s ''null'' then Inr (JNull, drop 4 s)
          else if startswith s ''true'' then Inr (JBool True, drop 4 s)
          else if startswith s ''false'' then Inr (JBool False, drop 5 s)
          else
            (case scan_number s of
               Some r \<Rightarrow> r
             | None \<Rightarrow>
                 if startswith s ''NaN'' then Inr (JFloat ''NaN'', drop 3 s)
                 else if startswith s ''Infinity'' then Inr (JFloat ''Infinity'', drop 8 s)
                 else if startswith s ''-Infinity'' then Inr (JFloat ''-Infinity'', drop 9 s)
                 else Inl JSONDecodeError))"
| "scan_array 0 d acc s = Inl JSONDecodeError"
| "scan_array (Suc n) d acc s =
     (case scan_once n d s of
        Inl e \<Rightarrow> Inl e
      | Inr (v, r) \<Rightarrow>
          (case skip_ws r of
             [] \<Rightarrow> Inl JSONDecodeError
           | e # r' \<Rightarrow>
               if e = CHR '']'' then Inr (JArr (acc @ [v]), r')
               else if e = CHR '','' then scan_array n d (acc @ [v]) (skip_ws r')
               else Inl JSONDecodeError))"
| "scan_object 0 d acc s = Inl JSONDecodeError"
| "scan_object (Suc n) d acc s =
     (case s of
        [] \<Rightarrow> Inl JSONDecodeError
      | q # s' \<Rightarrow>
          if q \<noteq> dq then Inl JSONDecodeError
          else
            (case scanstring [] s' of
               None \<Rightarrow> Inl JSONDecodeError
             | Some (k, r) \<Rightarrow>
                 (case skip_ws r of
                    [] \<Rightarrow> Inl JSONDecodeError
                  | c # r1 \<Rightarrow>
                      if c \<noteq> CHR '':'' then Inl JSONDecodeError
                      else
                        (case scan_once n d (skip_ws r1) of
                           Inl e \<Rightarrow> Inl e
                         | Inr (v, r2) \<Rightarrow>
                             (case skip_ws r2 of
                                [] \<Rightarrow> Inl JSONDecodeError
                              | e # r3 \<Rightarrow>
                                  if e = CHR ''}'' then Inr (JObj (dict_set acc k v), r3)
                                  else if e = CHR '','' then
                                    scan_object n d (dict_set acc k v) (skip_ws r3)
                                  else Inl JSONDecodeError)))))"

text \<open>\<open>json.loads\<close>: one value, blanks around it allowed, nothing else. A text that is not
  a JSON document raises \<open>JSONDecodeError\<close>, which is a \<open>ValueError\<close>.\<close>

definition json_loads :: "nat \<Rightarrow> string \<Rightarrow> exn + json" where
  "json_loads depth s =
     (case scan_once (2 * length s + 1) depth (skip_ws s) of
        Inl e \<Rightarrow> Inl e
      | Inr (v, r) \<Rightarrow> if skip_ws r = [] then Inr v else Inl JSONDecodeError)"

text \<open>The exceptions the decoder raises.\<close>

definition decoder_error :: "exn + 'a \<Rightarrow> bool" where
  "decoder_error r =
     (case r of
        Inl e \<Rightarrow> e = JSONDecodeError \<or> e = ValueError \<or> e = RecursionError
      | Inr _ \<Rightarrow> True)"

subsection \<open>Which lists are catalogues\<close>





subsection \<open>The file \<open>data.txt\<close>\<close>

text \<open>What \<open>open("data.txt")\<close> finds: no file, a file the process may not read, or a text.
  Opening the file for writing is taken to succeed; a completed \<open>json.dump\<close> replaces the
  whole text.\<close>

datatype file_state = Missing | Unreadable | Text string


record store =
  data :: "joke list"
  "file" :: file_state

section \<open>The admin program (admin.py)\<close>

subsection \<open>Terminal\<close>

text \<open>The terminal is the list of lines still to be typed and what the program has
  written: a \<open>print\<close> call or the prompt of an \<open>input\<close> call. Reading past the last line
  raises \<open>EOFError\<close>.\<close>

datatype out_event = Print string | Prompt string

record admin = store +
  stdin :: "string list"
  stdout :: "out_event list"

definition print_line :: "string \<Rightarrow> admin \<Rightarrow> admin" where
  "print_line s st = st\<lparr>stdout := stdout st @ [Print s]\<rparr>"

definition print_lines :: "string list \<Rightarrow> admin \<Rightarrow> admin" where
  "print_lines ls st = st\<lparr>stdout := stdout st @ map Print ls\<rparr>"

definition py_input :: "string \<Rightarrow> admin \<Rightarrow> exn + (string \<times> admin)" where
  "py_input prompt st =
     (case stdin st of
        [] \<Rightarrow> Inl EOFError
      | l # ls \<Rightarrow> Inr (l, st\<lparr>stdin := ls, stdout := stdout st @ [Prompt prompt]\<rparr>))"

subsection \<open>Helper functions (lines 16 to 50)\<close>

fun input_int_lines ::
  "string \<Rightarrow> string list \<Rightarrow> out_event list \<Rightarrow> exn + (int \<times> string list \<times> out_event list)" where
  "input_int_lines prompt [] out = Inl EOFError"
| "input_int_lines prompt (l # ls) out =
     (case py_int l of
        Inl e \<Rightarrow>
          input_int_lines prompt ls
            (out @ [Prompt prompt, Print ''Invalid input. Please enter a whole number.''])
      | Inr v \<Rightarrow>
          if 1 \<le> v then Inr (v, ls, out @ [Prompt prompt])
          else input_int_lines prompt ls
                 (out @ [Prompt prompt, Print ''Please enter a number of 1 or higher.'']))"

definition input_int :: "string \<Rightarrow> admin \<Rightarrow> exn + (int \<times> admin)" where
  "input_int prompt st =
     (case input_int_lines prompt (stdin st) (stdout st) of
        Inl e \<Rightarrow> Inl e
      | Inr (v, ls, out) \<Rightarrow> Inr (v, st\<lparr>stdin := ls, stdout := out\<rparr>))"

fun input_something_lines ::
  "string \<Rightarrow> string list \<Rightarrow> out_event list \<Rightarrow> exn + (string \<times> string list \<times> out_event list)" where
  "input_something_lines prompt [] out = Inl EOFError"
| "input_something_lines prompt (l # ls) out =
     (let text = py_strip l
      in if text \<noteq> [] then Inr (text, ls, out @ [Prompt prompt])
         else input_something_lines prompt ls
                (out @ [Prompt prompt, Print ''Input cannot be blank. Please try again.'']))"

definition input_something :: "string \<Rightarrow> admin \<Rightarrow> exn + (string \<times> admin)" where
  "input_something prompt st =
     (case input_something_lines prompt (stdin st) (stdout st) of
        Inl e \<Rightarrow> Inl e
      | Inr (t, ls, out) \<Rightarrow> Inr (t, st\<lparr>stdin := ls, stdout := out\<rparr>))"

definition save_data :: "joke list \<Rightarrow> exn + file_state" where
  "save_data data_list =
     (case json_dump data_list of Inl e \<Rightarrow> Inl e | Inr t \<Rightarrow> Inr (Text t))"

subsection \<open>Program initialization (lines 57 to 66)\<close>





subsection \<open>The commands (lines 85 to 221)\<close>

text \<open>\<open>textwrap.shorten(text, width=50, placeholder="...")\<close> is a parameter of the
  commands that use it.\<close>

definition no_jokes :: string where
  "no_jokes = ''No jokes saved.''"

definition invalid_index :: string where
  "invalid_index = ''Invalid index number.''"

definition cmd_add :: "admin \<Rightarrow> exn + admin" where
  "cmd_add st =
     (case input_something ''Enter setup of joke: '' st of
        Inl e \<Rightarrow> Inl e
      | Inr (s, st1) \<Rightarrow>
          (case input_something ''Enter punchline of joke: '' st1 of
             Inl e \<Rightarrow> Inl e
           | Inr (p, st2) \<Rightarrow>
               let data' = data st2 @ [\<lparr>setup = s, punchline = p, laughs = 0, groans = 0\<rparr>]
               in case save_data data' of
                    Inl e \<Rightarrow> Inl e
                  | Inr f \<Rightarrow> Inr (print_line ''Joke added.'' (st2\<lparr>data := data', file := f\<rparr>))))"

definition item_line :: "(string \<Rightarrow> string) \<Rightarrow> nat \<times> joke \<Rightarrow> string" where
  "item_line shorten p = str_nat (fst p) @ '') '' @ shorten (setup (snd p))"

definition cmd_list :: "(string \<Rightarrow> string) \<Rightarrow> admin \<Rightarrow> exn + admin" where
  "cmd_list shorten st =
     (if data st = [] then Inr (print_line no_jokes st)
      else Inr (print_lines (map (item_line shorten) (enumerate 1 (data st)))
                  (print_line ''List of jokes:'' st)))"

definition matches :: "string \<Rightarrow> joke \<Rightarrow> bool" where
  "matches t j = (py_in t (py_lower (setup j)) \<or> py_in t (py_lower (punchline j)))"

definition search_hits :: "string \<Rightarrow> joke list \<Rightarrow> (nat \<times> joke) list" where
  "search_hits t js = filter (\<lambda>p. matches t (snd p)) (enumerate 1 js)"

text \<open>The search term: the inline argument when there is one, else a text asked for
  until it is not blank.\<close>

definition read_term :: "string option \<Rightarrow> admin \<Rightarrow> exn + (string \<times> admin)" where
  "read_term arg st =
     (case arg of
        None \<Rightarrow> input_something ''Enter search term: '' st
      | Some a \<Rightarrow>
          if a \<noteq> [] then Inr (a, st) else input_something ''Enter search term: '' st)"

definition cmd_search :: "(string \<Rightarrow> string) \<Rightarrow> string option \<Rightarrow> admin \<Rightarrow> exn + admin" where
  "cmd_search shorten arg st =
     (if data st = [] then Inr (print_line no_jokes st)
      else
        (case read_term arg st of
           Inl e \<Rightarrow> Inl e
         | Inr (t, st1) \<Rightarrow>
             let hits = search_hits (py_lower t) (data st1);
                 st2 = print_lines (map (item_line shorten) hits)
                         (print_line ''Search results:'' st1)
             in Inr (if hits = [] then print_line ''No results found.'' st2 else st2)))"

text \<open>The index the view and delete commands work with: the inline argument when it is
  all digits, else a number asked for until it is 1 or more; less one.\<close>

definition read_index :: "string \<Rightarrow> string option \<Rightarrow> admin \<Rightarrow> exn + (int \<times> admin)" where
  "read_index prompt arg st =
     (let ask = (case input_int prompt st of
                   Inl e \<Rightarrow> Inl e
                 | Inr (v, st1) \<Rightarrow> Inr (v - 1, st1))
      in case arg of
           None \<Rightarrow> ask
         | Some a \<Rightarrow>
             if py_isdigit a
             then (case py_int a of Inl e \<Rightarrow> Inl e | Inr v \<Rightarrow> Inr (v - 1, st))
             else ask)"

definition cmd_view :: "string option \<Rightarrow> admin \<Rightarrow> exn + admin" where
  "cmd_view arg st =
     (if data st = [] then Inr (print_line no_jokes st)
      else
        (case read_index ''Joke number to view: '' arg st of
           Inl e \<Rightarrow> Inl e
         | Inr (index, st1) \<Rightarrow>
             if 0 \<le> index \<and> index < int (length (data st1)) then
               (case view_joke (data st1 ! nat index) of
                  Inl e \<Rightarrow> Inl e
                | Inr ls \<Rightarrow> Inr (print_lines ls st1))
             else Inr (print_line invalid_index st1)))"

text \<open>\<open>del data[index]\<close> for an index in range.\<close>

definition del_item :: "'a list \<Rightarrow> nat \<Rightarrow> 'a list" where
  "del_item xs i = take i xs @ drop (Suc i) xs"

definition cmd_delete :: "string option \<Rightarrow> admin \<Rightarrow> exn + admin" where
  "cmd_delete arg st =
     (if data st = [] then Inr (print_line no_jokes st)
      else
        (case read_index ''Joke number to delete: '' arg st of
           Inl e \<Rightarrow> Inl e
         | Inr (index, st1) \<Rightarrow>
             if 0 \<le> index \<and> index < int (length (data st1)) then
               let data' = del_item (data st1) (nat index)
               in case save_data data' of
                    Inl e \<Rightarrow> Inl e
                  | Inr f \<Rightarrow> Inr (print_line ''Joke deleted.'' (st1\<lparr>data := data', file := f\<rparr>))
             else Inr (print_line invalid_index st1)))"

text \<open>\<open>max(xs, key=f)\<close>: the items are visited in order and the best one so far is
  replaced only by an item with a strictly larger key.\<close>

fun max_from :: "('a \<Rightarrow> int) \<Rightarrow> 'a \<Rightarrow> 'a list \<Rightarrow> 'a" where
  "max_from key best [] = best"
| "max_from key best (x # xs) = max_from key (if key best < key x then x else best) xs"

definition py_max :: "('a \<Rightarrow> int) \<Rightarrow> 'a list \<Rightarrow> exn + 'a" where
  "py_max key xs = (case xs of [] \<Rightarrow> Inl ValueError | x # r \<Rightarrow> Inr (max_from key x r))"

definition top_lines :: "string \<Rightarrow> joke \<Rightarrow> string list" where
  "top_lines title j =
     [title, setup j, ''Punchline: '' @ punchline j,
      ''Laughs: '' @ str_int (laughs j) @ '', Groans: '' @ str_int (groans j)]"

definition cmd_top :: "admin \<Rightarrow> exn + admin" where
  "cmd_top st =
     (if data st = [] then Inr (print_line no_jokes st)
      else
        (case py_max laughs (data st) of
           Inl e \<Rightarrow> Inl e
         | Inr top_laughs \<Rightarrow>
             (case py_max groans (data st) of
                Inl e \<Rightarrow> Inl e
              | Inr top_groans \<Rightarrow>
                  Inr (print_lines
                         (top_lines (nl # ''Top Laughs Joke:'') top_laughs
                            @ top_lines (nl # ''Top Groans Joke:'') top_groans) st))))"

subsection \<open>One turn of the main menu loop (lines 71 to 221)\<close>

definition menu_text :: string where
  "menu_text = nl # ''Choose [a]dd, [l]ist, [s]earch, [v]iew, [d]elete, [t]op or [q]uit.''"

definition invalid_choice :: string where
  "invalid_choice = ''Invalid choice. Please try again.''"

text \<open>A turn ends the program with an exception, ends it by \<open>break\<close>, or returns to the
  head of the loop, where the next command is awaited.\<close>

datatype turn = Died exn | Quit admin | Awaiting admin

definition continue :: "exn + admin \<Rightarrow> turn" where
  "continue r = (case r of Inl e \<Rightarrow> Died e | Inr st \<Rightarrow> Awaiting st)"

definition menu_turn :: "(string \<Rightarrow> string) \<Rightarrow> admin \<Rightarrow> turn" where
  "menu_turn shorten st =
     (case py_input ''> '' (print_line menu_text st) of
        Inl e \<Rightarrow> Died e
      | Inr (line, st1) \<Rightarrow>
          (case py_split1 (py_strip line) of
             [] \<Rightarrow> Died IndexError
           | p # ps \<Rightarrow>
               let choice = py_lower p;
                   arg = (case ps of [] \<Rightarrow> None | a # _ \<Rightarrow> Some a)
               in if choice = ''a'' then continue (cmd_add st1)
                  else if choice = ''l'' then continue (cmd_list shorten st1)
                  else if choice = ''s'' then continue (cmd_search shorten arg st1)
                  else if choice = ''v'' then continue (cmd_view arg st1)
                  else if choice = ''d'' then continue (cmd_delete arg st1)
                  else if choice = ''t'' then continue (cmd_top st1)
                  else if choice = ''q'' then Quit (print_line ''Goodbye!'' st1)
                  else Awaiting (print_line invalid_choice st1)))"

section \<open>The rating program (jokes.py)\<close>

text \<open>
  The state of \<open>ProgramGUI\<close>: the shuffled catalogue, the file, the index of the joke on
  show, whether the window still exists (\<open>window.destroy()\<close> ends the event loop), the
  texts of the labels, the punchline a click reveals and the message boxes shown so far.
  The progress label is kept in parts: its literal text has a dash beyond the model's
  characters.
\<close>

datatype dialog = Showerror string string | Showinfo string string

datatype rating_info = No_ratings_yet | Counts int int

datatype progress = Blank | Position nat nat rating_info

record gui = store +
  current_joke :: nat
  window_open :: bool
  setup_label :: string
  punchline_label :: string
  progress_label :: progress
  click_reveals :: string
  dialogs :: "dialog list"

definition show_joke :: "gui \<Rightarrow> exn + gui" where
  "show_joke g =
     (if current_joke g < length (data g) then
        let joke = data g ! current_joke g
        in Inr (g\<lparr>setup_label := setup joke,
                   punchline_label := ''(Click to reveal punchline)'',
                   progress_label :=
                     Position (current_joke g + 1) (length (data g))
                       (if laughs joke = 0 \<and> groans joke = 0 then No_ratings_yet
                        else Counts (laughs joke) (groans joke)),
                   click_reveals := punchline joke\<rparr>)
      else Inl IndexError)"

definition reveal_punchline :: "gui \<Rightarrow> gui" where
  "reveal_punchline g = g\<lparr>punchline_label := click_reveals g\<rparr>"

text \<open>\<open>joke[rating] += 1\<close> on the dictionary of a joke.\<close>

definition add_one :: "string \<Rightarrow> joke \<Rightarrow> exn + joke" where
  "add_one rating j =
     (if rating = ''laughs'' then Inr (j\<lparr>laughs := laughs j + 1\<rparr>)
      else if rating = ''groans'' then Inr (j\<lparr>groans := groans j + 1\<rparr>)
      else if rating = ''setup'' \<or> rating = ''punchline'' then Inl TypeError
      else Inl KeyError)"

definition last_thanks :: dialog where
  "last_thanks = Showinfo ''Rating Recorded'' ''That was the last joke. Thanks for rating!''"

definition next_thanks :: dialog where
  "next_thanks =
     Showinfo ''Rating Recorded'' (''Thank you for rating!'' @ nl # ''The next joke will now appear.'')"

definition last_skipped :: dialog where
  "last_skipped = Showinfo ''End'' ''That was the last joke. No rating recorded.''"

definition next_skipped :: dialog where
  "next_skipped =
     Showinfo ''Skipped'' (''You abstained from rating.'' @ nl # ''The next joke will now appear.'')"

definition rate_joke :: "string \<Rightarrow> gui \<Rightarrow> exn + gui" where
  "rate_joke rating g =
     (if length (data g) \<le> current_joke g then Inl IndexError
      else
        (case add_one rating (data g ! current_joke g) of
           Inl e \<Rightarrow> Inl e
         | Inr j \<Rightarrow>
             let data' = (data g)[current_joke g := j]
             in case json_dump data' of
                  Inl e \<Rightarrow> Inl e
                | Inr t \<Rightarrow>
                    let g1 = g\<lparr>data := data', file := Text t\<rparr>
                    in if int (current_joke g1) = int (length (data g1)) - 1
                       then Inr (g1\<lparr>dialogs := dialogs g1 @ [last_thanks],
                                     window_open := False\<rparr>)
                       else show_joke (g1\<lparr>dialogs := dialogs g1 @ [next_thanks],
                                           current_joke := current_joke g1 + 1\<rparr>)))"

definition abstain_joke :: "gui \<Rightarrow> exn + gui" where
  "abstain_joke g =
     (if int (current_joke g) = int (length (data g)) - 1
      then Inr (g\<lparr>dialogs := dialogs g @ [last_skipped], window_open := False\<rparr>)
      else show_joke (g\<lparr>dialogs := dialogs g @ [next_skipped],
                          current_joke := current_joke g + 1\<rparr>))"




section \<open>Example jokes\<close>

definition j1 :: joke where
  "j1 = \<lparr>setup = ''a'', punchline = ''p'', laughs = 5, groans = 0\<rparr>"

definition j2 :: joke where
  "j2 = \<lparr>setup = ''b'', punchline = ''q'', laughs = 5, groans = 2\<rparr>"

definition j3 :: joke where
  "j3 = \<lparr>setup = ''c'', punchline = ''r'', laughs = 3, groans = 2\<rparr>"

section \<open>Verified properties\<close>

subsection \<open>Rounding stays in range\<close>

lemma round_half_even_le: "of_int (round_half_even y) \<le> y + 1"
  unfolding round_half_even_def Let_def by (auto; linarith)

lemma round_half_even_nonneg: "0 \<le> y \<Longrightarrow> 0 \<le> round_half_even y"
  unfolding round_half_even_def Let_def by auto

lemma pow2_pos: "0 < pow2 k"
  by (simp add: pow2_def)

lemma pow2_le_one: "k \<le> 0 \<Longrightarrow> pow2 k \<le> 1"
  by (auto simp: pow2_def divide_le_eq)

lemma binade_down_le: "binade_down e x \<le> e"
  by (induction e x rule: binade_down.induct) (subst binade_down.simps, auto)

lemma binade_le_zero: "x \<le> 1 \<Longrightarrow> binade x \<le> 0"
  using binade_down_le [of 0 x] by (auto simp: binade_def halvings.simps)

lemma round_double_unit:
  assumes "0 \<le> x" and "x \<le> 1"
  shows "0 \<le> round_double x \<and> round_double x \<le> 2"
proof (cases "x = 0")
  case True
  then show ?thesis by (simp add: round_double_def)
next
  case False
  define u where "u = pow2 (binade x - 52)"
  have u: "0 < u" "u \<le> 1"
    using binade_le_zero [OF assms(2)] by (auto simp: u_def pow2_pos intro: pow2_le_one)
  have "of_int (round_half_even (x / u)) * u \<le> (x / u + 1) * u"
    using round_half_even_le [of "x / u"] u by (simp add: mult_right_mono)
  also have "\<dots> = x + u"
    using u by (simp add: field_simps)
  finally have "of_int (round_half_even (x / u)) * u \<le> 2"
    using u assms by simp
  moreover have "0 \<le> of_int (round_half_even (x / u)) * u"
    using round_half_even_nonneg [of "x / u"] u assms by simp
  ultimately show ?thesis
    using False by (simp add: round_double_def u_def Let_def)
qed

lemma not_overflows_small: "x \<le> 2 \<Longrightarrow> \<not> overflows x"
proof -
  assume "x \<le> 2"
  moreover have "(2::rat) < 2 ^ 1024"
    using power_strict_increasing [of 1 1024 "2::rat"] by simp
  ultimately show ?thesis by (simp add: overflows_def)
qed

text \<open>For counters that are not negative, the quotient of a counter by the total is a
  finite, non-negative double: the division does not raise.\<close>

lemma truediv_share:
  assumes "0 \<le> c" and "c \<le> t" and "0 < t"
  shows "truediv c t = Inr (Finite False (round_double (of_int c / of_int t)))"
proof -
  have "(of_int c :: rat) / of_int t \<le> 1" "0 \<le> (of_int c :: rat) / of_int t"
    using assms by (simp_all add: divide_le_eq)
  then have "\<not> overflows (round_double (of_int c / of_int t))"
    using round_double_unit not_overflows_small by blast
  then show ?thesis
    using assms by (simp add: truediv_def Let_def)
qed

lemma percentage_share:
  assumes "0 \<le> c" and "c \<le> t" and "0 < t"
  shows "\<exists>p. percentage c t = Inr p"
  using assms by (simp add: percentage_def truediv_share)

subsection \<open>The commentary of the view command\<close>

text \<open>
  C5. For a joke with \<open>laughs + groans > 0\<close> (both counters not negative, as the data
  model has them) the view command prints the two head lines and then the commentary of
  the first tier that matches, in this order: five or more laughs and no groan, hilarious;
  five or more groans and no laugh, groan-worthy (the program's word is "groantastic");
  some groan and at least four laughs per groan, hilarious; some laugh and at least four
  groans per laugh, groan-worthy; otherwise no commentary line.
\<close>

theorem view_commentary_tiers:
  assumes "0 \<le> laughs j" and "0 \<le> groans j" and "0 < laughs j + groans j"
  shows "\<exists>head_line stats. view_joke j =
     Inr ([head_line, stats] @
       (if 5 \<le> laughs j \<and> groans j = 0 then [''This joke is hilarious!'']
        else if 5 \<le> groans j \<and> laughs j = 0 then [''This joke is groantastic!'']
        else if 0 < groans j \<and> 4 * groans j \<le> laughs j then [''This joke is hilarious!'']
        else if 0 < laughs j \<and> 4 * laughs j \<le> groans j then [''This joke is groantastic!'']
        else []))"
proof -
  obtain lp where lp: "percentage (laughs j) (laughs j + groans j) = Inr lp"
    using percentage_share [of "laughs j" "laughs j + groans j"] assms by auto
  obtain gp where gp: "percentage (groans j) (laughs j + groans j) = Inr gp"
    using percentage_share [of "groans j" "laughs j + groans j"] assms by auto
  have rated: "\<not> (laughs j = 0 \<and> groans j = 0)"
    using assms(3) by auto
  have v: "view_joke j =
      Inr ([CHR 0x0A # setup j @ CHR 0x0A # punchline j,
            stats_line (laughs j) lp (groans j) gp] @ commentary (laughs j) (groans j))"
    using rated lp gp by (auto simp add: view_joke_def Let_def)
  have c: "commentary (laughs j) (groans j) =
       (if 5 \<le> laughs j \<and> groans j = 0 then [''This joke is hilarious!'']
        else if 5 \<le> groans j \<and> laughs j = 0 then [''This joke is groantastic!'']
        else if 0 < groans j \<and> 4 * groans j \<le> laughs j then [''This joke is hilarious!'']
        else if 0 < laughs j \<and> 4 * laughs j \<le> groans j then [''This joke is groantastic!'']
        else [])"
    by (simp add: commentary_def hilarious_def groantastic_def conj_commute)
  show ?thesis
    by (intro exI) (simp only: v c)
qed

theorem view_commentary_tiers_witness:
  "\<exists>head_line stats.
     view_joke \<lparr>setup = ''s'', punchline = ''p'', laughs = 8, groans = 2\<rparr> =
       Inr [head_line, stats, ''This joke is hilarious!'']"
  using view_commentary_tiers [of "\<lparr>setup = ''s'', punchline = ''p'', laughs = 8, groans = 2\<rparr>"]
  by simp

subsection \<open>The menu loop and a blank line\<close>

lemmas char_class_defs = isspace_def code_point_def Let_def

text \<open>
  C1. The claim is that every line typed at the menu is handled without ending the
  process, a blank line being answered with "invalid choice". The code splits the
  stripped line and takes \<open>parts[0]\<close> before it looks at the choice: a line of blanks has
  no part, so the turn ends with \<open>IndexError\<close>, whatever the catalogue and whatever is typed
  afterwards.
\<close>

theorem blank_line_ends_program:
  "menu_turn shorten (st\<lparr>stdin := ''  '' # typed\<rparr>) = Died IndexError"
  by (simp add: menu_turn_def py_input_def print_line_def py_strip_def py_split1_def
      char_class_defs)

lemma empty_line_ends_program:
  "menu_turn shorten (st\<lparr>stdin := [] # typed\<rparr>) = Died IndexError"
  by (simp add: menu_turn_def py_input_def print_line_def py_strip_def py_split1_def
      char_class_defs)

text \<open>A line whose first part is not a command is answered with the message and the
  loop goes on; here for the line \<open>x\<close>.\<close>

lemma unknown_choice_is_reported:
  "menu_turn shorten (st\<lparr>stdin := ''x'' # typed\<rparr>) =
     Awaiting (st\<lparr>stdin := typed,
       stdout := stdout st @ [Print menu_text, Prompt ''> '', Print invalid_choice]\<rparr>)"
  by (simp add: menu_turn_def py_input_def print_line_def py_strip_def py_split1_def
      char_class_defs py_lower_def lower_char_def)


subsection \<open>Loading the file\<close>

text \<open>The decoder raises one of three exceptions. Two of them are \<open>ValueError\<close>s, which
  both programs catch; \<open>RecursionError\<close> is not.\<close>

lemma decoder_error_simps [simp]:
  "decoder_error (Inl JSONDecodeError)" "decoder_error (Inl ValueError)"
  "decoder_error (Inl RecursionError)" "decoder_error (Inr x)"
  by (simp_all add: decoder_error_def)

lemma scan_number_error: "scan_number s = Some r \<Longrightarrow> decoder_error r"
  by (auto simp: scan_number_def Let_def split: if_splits)

lemma scan_error:
  "decoder_error (scan_once n d s) \<and> decoder_error (scan_array n d vs s)
   \<and> decoder_error (scan_object n d ms s)"
proof (induction n arbitrary: d s vs ms)
  case 0
  show ?case by simp
next
  case (Suc n)
  have once: "decoder_error (scan_once (Suc n) d s)"
    using Suc scan_number_error
    by (simp split: list.split option.split nat.split prod.split del: startswith.simps)
  have arr: "decoder_error (scan_array (Suc n) d vs s)"
  proof (cases "scan_once n d s")
    case (Inl e)
    with Suc [of d s] show ?thesis by simp
  next
    case (Inr p)
    with Suc show ?thesis by (simp split: list.split prod.split)
  qed
  have obj: "decoder_error (scan_object (Suc n) d ms s)"
  proof -
    have "decoder_error (case scan_once n d t of
            Inl e \<Rightarrow> Inl e
          | Inr (v, r2) \<Rightarrow>
              (case skip_ws r2 of
                 [] \<Rightarrow> Inl JSONDecodeError
               | e # r3 \<Rightarrow>
                   if e = CHR ''}'' then Inr (JObj (dict_set ms k v), r3)
                   else if e = CHR '','' then scan_object n d (dict_set ms k v) (skip_ws r3)
                   else Inl JSONDecodeError))" for t k
    proof (cases "scan_once n d t")
      case (Inl e)
      with Suc [of d t] show ?thesis by simp
    next
      case (Inr p)
      with Suc show ?thesis by (simp split: list.split prod.split)
    qed
    then show ?thesis
      by (simp split: list.split option.split prod.split)
  qed
  from once arr obj show ?case by blast
qed

lemma json_loads_error:
  "json_loads depth s = Inl e \<Longrightarrow> e = JSONDecodeError \<or> e = ValueError \<or> e = RecursionError"
  using scan_error [of "2 * length s + 1" depth "skip_ws s"]
  by (auto simp: json_loads_def decoder_error_def split: sum.splits if_splits)










subsection \<open>Decimal text\<close>

lemma digit_char_decimal: "d < 10 \<Longrightarrow> is_decimal (digit_char d) \<and> digit_value (digit_char d) = int d"
proof -
  assume "d < 10"
  then have "d \<in> {0, 1, 2, 3, 4, 5, 6, 7, 8, 9}" by auto
  then show ?thesis
    by (auto simp: digit_char_def is_decimal_def digit_value_def code_point_def)
qed

lemma str_nat_decimal: "list_all is_decimal (str_nat n) \<and> str_nat n \<noteq> []"
proof (induction n rule: str_nat.induct)
  case (1 n)
  show ?case
  proof (cases "n < 10")
    case True
    then show ?thesis by (subst (1 2) str_nat.simps) (simp add: digit_char_decimal)
  next
    case False
    with 1 show ?thesis by (subst (1 2) str_nat.simps) (simp add: digit_char_decimal)
  qed
qed

lemma digits_int_append: "digits_int acc (xs @ [d]) = 10 * digits_int acc xs + digit_value d"
  by (induction xs arbitrary: acc) simp_all

lemma digits_int_str_nat: "digits_int 0 (str_nat n) = int n"
proof (induction n rule: str_nat.induct)
  case (1 n)
  show ?case
  proof (cases "n < 10")
    case True
    then show ?thesis by (subst str_nat.simps) (simp add: digit_char_decimal)
  next
    case False
    with 1 have "digits_int 0 (str_nat (n div 10)) = int (n div 10)" by simp
    with False show ?thesis
      by (subst str_nat.simps) (simp add: digits_int_append digit_char_decimal zdiv_int zmod_int)
  qed
qed

lemma int_digits_decimal: "list_all is_decimal ds \<Longrightarrow> int_digits acc ds = Some (digits_int acc ds)"
  by (induction ds arbitrary: acc) simp_all

lemma decimal_not_space: "is_decimal c \<Longrightarrow> \<not> int_space c \<and> \<not> isspace c \<and> c \<noteq> CHR ''+'' \<and> c \<noteq> CHR ''-'' \<and> isdigit_char c"
  by (auto simp: is_decimal_def int_space_def isspace_def isdigit_char_def code_point_def Let_def)

lemma filter_decimal: "list_all is_decimal ds \<Longrightarrow> filter is_decimal ds = ds"
  by (induction ds) simp_all

text \<open>\<open>int\<close> reads the decimal text of a number back when it has no more digits than the
  interpreter converts, and raises \<open>ValueError\<close> when it has more.\<close>

lemma py_int_str_nat:
  "py_int (str_nat n) =
     (if max_str_digits < length (str_nat n) then Inl ValueError else Inr (int n))"
proof -
  obtain c cs where s: "str_nat n = c # cs" and c: "is_decimal c" and cs: "list_all is_decimal cs"
    using str_nat_decimal [of n] by (cases "str_nat n") auto
  have l: "is_decimal (last (c # cs))"
    using c cs last_in_set [of "c # cs"] by (auto simp: list_all_iff)
  have "dropWhile int_space (c # cs) = c # cs"
    using c decimal_not_space by simp
  moreover have "dropWhile int_space (rev (c # cs)) = rev (c # cs)"
    using l decimal_not_space by (metis dropWhile_eq_self_iff hd_rev)
  moreover have "int_digits (digit_value c) cs = Some (digits_int 0 (c # cs))"
    using cs by (simp add: int_digits_decimal)
  moreover have "filter is_decimal (c # cs) = c # cs"
    using c cs filter_decimal [of "c # cs"] by simp
  ultimately show ?thesis
    using c decimal_not_space [OF c] digits_int_str_nat [of n]
    by (simp add: py_int_def s int_magnitude_def Let_def del: dropWhile.simps rev.simps filter.simps)
qed

lemma py_isdigit_str_nat: "py_isdigit (str_nat n)"
  using str_nat_decimal [of n] decimal_not_space
  by (auto simp: py_isdigit_def list_all_iff)

subsection \<open>The first maximum\<close>

lemma max_from_split:
  "\<exists>ps ss. b # xs = ps @ max_from key b xs # ss
     \<and> (\<forall>p\<in>set ps. key p < key (max_from key b xs))
     \<and> (\<forall>s\<in>set ss. key s \<le> key (max_from key b xs))"
proof (induction xs arbitrary: b)
  case Nil
  have "[b] = [] @ b # [] \<and> (\<forall>p\<in>set []. key p < key b) \<and> (\<forall>s\<in>set []. key s \<le> key b)"
    by simp
  then show ?case unfolding max_from.simps by blast
next
  case (Cons x xs)
  define b' where "b' = (if key b < key x then x else b)"
  define r where "r = max_from key b' xs"
  have r: "max_from key b (x # xs) = r" by (simp add: r_def b'_def)
  from Cons [of b'] obtain ps ss where
    split: "b' # xs = ps @ r # ss" and
    before: "\<forall>p\<in>set ps. key p < key r" and
    after: "\<forall>s\<in>set ss. key s \<le> key r"
    unfolding r_def by blast
  show ?case
  proof (cases "key b < key x")
    case True
    then have b': "b' = x" by (simp add: b'_def)
    have "key b < key r"
    proof (cases ps)
      case Nil
      with split b' True show ?thesis by simp
    next
      case (Cons p ps0)
      with split b' have "p = x" by simp
      with Cons before True show ?thesis by auto
    qed
    with split before after b' have
      "b # x # xs = (b # ps) @ r # ss \<and> (\<forall>p\<in>set (b # ps). key p < key r)
        \<and> (\<forall>s\<in>set ss. key s \<le> key r)"
      by simp
    then show ?thesis unfolding r by blast
  next
    case False
    then have b': "b' = b" by (simp add: b'_def)
    show ?thesis
    proof (cases ps)
      case Nil
      with split b' have "r = b" "ss = xs" by simp_all
      with after False have
        "b # x # xs = [] @ r # (x # xs) \<and> (\<forall>p\<in>set []. key p < key r)
          \<and> (\<forall>s\<in>set (x # xs). key s \<le> key r)"
        by auto
      then show ?thesis unfolding r by blast
    next
      case (Cons p ps0)
      with split b' have p: "p = b" and xs: "xs = ps0 @ r # ss" by simp_all
      from Cons before p have "key b < key r" by simp
      with False have "key x < key r" by simp
      with Cons before after p xs have
        "b # x # xs = (b # x # ps0) @ r # ss \<and> (\<forall>p\<in>set (b # x # ps0). key p < key r)
          \<and> (\<forall>s\<in>set ss. key s \<le> key r)"
        by simp
      then show ?thesis unfolding r by blast
    qed
  qed
qed


subsection \<open>The top command\<close>

text \<open>
  C6 (as amended). On an empty catalogue the top command reports that no jokes are saved.
  On any other catalogue it prints the joke with the most laughs and the joke with the most
  groans, each the first of its kind in the order of the catalogue: every joke before it has
  strictly fewer, every joke after it has no more. The order of the catalogue is the order
  of the file, which is the order of insertion only as long as the rating program has not
  saved its shuffled list.
\<close>

theorem top_first_maximum:
  "(data st = [] \<longrightarrow>
      cmd_top st = Inr (st\<lparr>stdout := stdout st @ [Print ''No jokes saved.'']\<rparr>))
   \<and> (data st \<noteq> [] \<longrightarrow>
        (\<exists>ps r ss qs t us.
           data st = ps @ r # ss
           \<and> (\<forall>p\<in>set ps. laughs p < laughs r) \<and> (\<forall>s\<in>set ss. laughs s \<le> laughs r)
           \<and> data st = qs @ t # us
           \<and> (\<forall>q\<in>set qs. groans q < groans t) \<and> (\<forall>u\<in>set us. groans u \<le> groans t)
           \<and> cmd_top st =
               Inr (st\<lparr>stdout := stdout st @
                      [Print (CHR 0x0A # ''Top Laughs Joke:''),
                       Print (setup r),
                       Print (''Punchline: '' @ punchline r),
                       Print (''Laughs: '' @ str_int (laughs r) @ '', Groans: '' @ str_int (groans r)),
                       Print (CHR 0x0A # ''Top Groans Joke:''),
                       Print (setup t),
                       Print (''Punchline: '' @ punchline t),
                       Print (''Laughs: '' @ str_int (laughs t) @ '', Groans: ''
                                @ str_int (groans t))]\<rparr>)))"
proof (intro conjI impI)
  assume "data st = []"
  then show "cmd_top st = Inr (st\<lparr>stdout := stdout st @ [Print ''No jokes saved.'']\<rparr>)"
    by (simp add: cmd_top_def no_jokes_def print_line_def)
next
  assume "data st \<noteq> []"
  then obtain b xs where d: "data st = b # xs" by (cases "data st") auto
  obtain ps ss where l: "b # xs = ps @ max_from laughs b xs # ss"
      "\<forall>p\<in>set ps. laughs p < laughs (max_from laughs b xs)"
      "\<forall>s\<in>set ss. laughs s \<le> laughs (max_from laughs b xs)"
    using max_from_split [of b xs laughs] by blast
  obtain qs us where g: "b # xs = qs @ max_from groans b xs # us"
      "\<forall>q\<in>set qs. groans q < groans (max_from groans b xs)"
      "\<forall>u\<in>set us. groans u \<le> groans (max_from groans b xs)"
    using max_from_split [of b xs groans] by blast
  define r where "r = max_from laughs b xs"
  define t where "t = max_from groans b xs"
  have "cmd_top st =
               Inr (st\<lparr>stdout := stdout st @
                      [Print (CHR 0x0A # ''Top Laughs Joke:''),
                       Print (setup r),
                       Print (''Punchline: '' @ punchline r),
                       Print (''Laughs: '' @ str_int (laughs r) @ '', Groans: '' @ str_int (groans r)),
                       Print (CHR 0x0A # ''Top Groans Joke:''),
                       Print (setup t),
                       Print (''Punchline: '' @ punchline t),
                       Print (''Laughs: '' @ str_int (laughs t) @ '', Groans: ''
                                @ str_int (groans t))]\<rparr>)"
    by (simp add: cmd_top_def d py_max_def r_def t_def print_lines_def top_lines_def nl_def)
  with l g d show "\<exists>ps r ss qs t us.
           data st = ps @ r # ss
           \<and> (\<forall>p\<in>set ps. laughs p < laughs r) \<and> (\<forall>s\<in>set ss. laughs s \<le> laughs r)
           \<and> data st = qs @ t # us
           \<and> (\<forall>q\<in>set qs. groans q < groans t) \<and> (\<forall>u\<in>set us. groans u \<le> groans t)
           \<and> cmd_top st =
               Inr (st\<lparr>stdout := stdout st @
                      [Print (CHR 0x0A # ''Top Laughs Joke:''),
                       Print (setup r),
                       Print (''Punchline: '' @ punchline r),
                       Print (''Laughs: '' @ str_int (laughs r) @ '', Groans: '' @ str_int (groans r)),
                       Print (CHR 0x0A # ''Top Groans Joke:''),
                       Print (setup t),
                       Print (''Punchline: '' @ punchline t),
                       Print (''Laughs: '' @ str_int (laughs t) @ '', Groans: ''
                                @ str_int (groans t))]\<rparr>)"
    unfolding r_def t_def by metis
qed

lemma str_int_examples:
  "str_int 0 = ''0''" "str_int 1 = ''1''" "str_int 2 = ''2''" "str_int 3 = ''3''" "str_int 5 = ''5''"
  by (simp_all add: str_int_def str_nat.simps digit_char_def)

theorem top_first_maximum_witness:
  "cmd_top \<lparr>data = [j1, j2, j3], file = Missing, stdin = [], stdout = []\<rparr> =
     Inr \<lparr>data = [j1, j2, j3], file = Missing, stdin = [],
          stdout = [Print (CHR 0x0A # ''Top Laughs Joke:''),
                    Print ''a'', Print ''Punchline: p'', Print ''Laughs: 5, Groans: 0'',
                    Print (CHR 0x0A # ''Top Groans Joke:''),
                    Print ''b'', Print ''Punchline: q'', Print ''Laughs: 5, Groans: 2'']\<rparr>"
  using top_first_maximum [of "\<lparr>data = [j1, j2, j3], file = Missing, stdin = [], stdout = []\<rparr>"]
  by (auto simp: Cons_eq_append_conv append_eq_Cons_conv j1_def j2_def j3_def str_int_examples)

subsection \<open>The delete command\<close>


lemma read_index_overlong:
  "max_str_digits < length (str_nat k) \<Longrightarrow>
   read_index prompt (Some (str_nat k)) st = Inl ValueError"
  by (simp add: read_index_def py_isdigit_str_nat py_int_str_nat)














text \<open>A position of more digits than the interpreter converts, typed after the command,
  ends the program; so does a digit that is not decimal, such as a superscript two.\<close>

lemma delete_overlong_position:
  "data st \<noteq> [] \<Longrightarrow> max_str_digits < length (str_nat k) \<Longrightarrow>
   cmd_delete (Some (str_nat k)) st = Inl ValueError"
  by (simp add: cmd_delete_def read_index_overlong)

lemma delete_superscript_position:
  "data st \<noteq> [] \<Longrightarrow> cmd_delete (Some [CHR 0xB2]) st = Inl ValueError"
  by (simp add: cmd_delete_def read_index_def py_isdigit_def isdigit_char_def py_int_def
      int_space_def int_magnitude_def is_decimal_def code_point_def Let_def)

subsection \<open>The search command\<close>

lemma startswith_prefix: "startswith s t = prefix t s"
  by (induction s t rule: startswith.induct) auto

lemma py_in_sublist: "py_in t s = sublist t s"
  by (induction s) (simp_all add: startswith_prefix sublist_Cons_right)

text \<open>The term typed after the command, and the term typed at the prompt.\<close>

lemma read_term_inline: "t \<noteq> [] \<Longrightarrow> read_term (Some t) st = Inr (t, st)"
  by (simp add: read_term_def)

lemma read_term_prompt:
  "stdin st = l # rest \<Longrightarrow> py_strip l \<noteq> [] \<Longrightarrow>
   read_term None st =
     Inr (py_strip l, st\<lparr>stdin := rest, stdout := stdout st @ [Prompt ''Enter search term: '']\<rparr>)"
  by (simp add: read_term_def input_something_def Let_def)

text \<open>
  C8. On an empty catalogue the search command reports that no jokes are saved. On any
  other catalogue, for the term typed after the command or, stripped of the blanks around
  it, at the prompt, the joke at position \<open>i + 1\<close> is among the hits exactly when the
  lowercased term occurs as a block in its lowercased setup or in its lowercased punchline;
  the hits are printed with their positions, in the order of the catalogue, after the line
  "Search results:", and when there is none the line "No results found." follows, which is
  not the report of the empty catalogue. Neither the catalogue nor the file changes.
\<close>

theorem search_matches_substring:
  "(data st = [] \<longrightarrow>
      cmd_search shorten arg st = Inr (st\<lparr>stdout := stdout st @ [Print ''No jokes saved.'']\<rparr>))
   \<and> (data st \<noteq> []
        \<and> (arg = Some t \<and> t \<noteq> [] \<and> st1 = st
             \<or> arg = None \<and> stdin st = l # rest \<and> t = py_strip l \<and> t \<noteq> []
                \<and> st1 = st\<lparr>stdin := rest,
                            stdout := stdout st @ [Prompt ''Enter search term: '']\<rparr>)
      \<longrightarrow>
        (\<exists>hits.
           hits = filter (\<lambda>p. sublist (py_lower t) (py_lower (setup (snd p)))
                              \<or> sublist (py_lower t) (py_lower (punchline (snd p))))
                    (enumerate 1 (data st))
           \<and> (\<forall>i<length (data st).
                 ((Suc i, data st ! i) \<in> set hits) =
                 (sublist (py_lower t) (py_lower (setup (data st ! i)))
                    \<or> sublist (py_lower t) (py_lower (punchline (data st ! i)))))
           \<and> cmd_search shorten arg st =
               Inr (st1\<lparr>stdout := stdout st1 @ Print ''Search results:''
                      # map (\<lambda>p. Print (str_nat (fst p) @ '') '' @ shorten (setup (snd p)))) hits
                      @ (if hits = [] then [Print ''No results found.''] else [])\<rparr>)
           \<and> data st1 = data st \<and> file st1 = file st))
   \<and> ''No results found.'' \<noteq> ''No jokes saved.''"
proof (intro conjI impI)
  assume "data st = []"
  then show "cmd_search shorten arg st = Inr (st\<lparr>stdout := stdout st @ [Print ''No jokes saved.'']\<rparr>)"
    by (simp add: cmd_search_def no_jokes_def print_line_def)
next
  show "''No results found.'' \<noteq> ''No jokes saved.''" by simp
next
  assume a: "data st \<noteq> []
        \<and> (arg = Some t \<and> t \<noteq> [] \<and> st1 = st
             \<or> arg = None \<and> stdin st = l # rest \<and> t = py_strip l \<and> t \<noteq> []
                \<and> st1 = st\<lparr>stdin := rest,
                            stdout := stdout st @ [Prompt ''Enter search term: '']\<rparr>)"
  then have r: "read_term arg st = Inr (t, st1)"
    using read_term_inline [of t st] read_term_prompt [of st l rest] by auto
  from a have f: "data st1 = data st" "file st1 = file st" by auto
  define hits where "hits = filter (\<lambda>p. sublist (py_lower t) (py_lower (setup (snd p)))
                              \<or> sublist (py_lower t) (py_lower (punchline (snd p))))
                    (enumerate 1 (data st))"
  have h: "search_hits (py_lower t) (data st) = hits"
    by (simp add: search_hits_def hits_def matches_def py_in_sublist)
  have c: "cmd_search shorten arg st =
               Inr (st1\<lparr>stdout := stdout st1 @ Print ''Search results:''
                      # map (\<lambda>p. Print (str_nat (fst p) @ '') '' @ shorten (setup (snd p)))) hits
                      @ (if hits = [] then [Print ''No results found.''] else [])\<rparr>)"
    using a r f h
    by (simp add: cmd_search_def Let_def print_lines_def print_line_def item_line_def comp_def)
  have m: "\<forall>i<length (data st).
                 ((Suc i, data st ! i) \<in> set hits) =
                 (sublist (py_lower t) (py_lower (setup (data st ! i)))
                    \<or> sublist (py_lower t) (py_lower (punchline (data st ! i))))"
    by (auto simp: hits_def in_set_enumerate_eq)
  show "\<exists>hits.
           hits = filter (\<lambda>p. sublist (py_lower t) (py_lower (setup (snd p)))
                              \<or> sublist (py_lower t) (py_lower (punchline (snd p))))
                    (enumerate 1 (data st))
           \<and> (\<forall>i<length (data st).
                 ((Suc i, data st ! i) \<in> set hits) =
                 (sublist (py_lower t) (py_lower (setup (data st ! i)))
                    \<or> sublist (py_lower t) (py_lower (punchline (data st ! i)))))
           \<and> cmd_search shorten arg st =
               Inr (st1\<lparr>stdout := stdout st1 @ Print ''Search results:''
                      # map (\<lambda>p. Print (str_nat (fst p) @ '') '' @ shorten (setup (snd p)))) hits
                      @ (if hits = [] then [Print ''No results found.''] else [])\<rparr>)
           \<and> data st1 = data st \<and> file st1 = file st"
    using hits_def m c f by blast
qed

lemma lower_examples: "py_lower ''B'' = ''b''" "py_lower ''a'' = ''a''" "py_lower ''b'' = ''b''" "py_lower ''c'' = ''c''"
  "py_lower ''p'' = ''p''" "py_lower ''q'' = ''q''" "py_lower ''r'' = ''r''" "py_lower ''Z'' = ''z''"
  by (simp_all add: py_lower_def lower_char_def code_point_def char_of_def Let_def bit_Suc_0_iff)

lemma strip_example: "py_strip ''  r '' = ''r''"
  by (simp add: py_strip_def isspace_def code_point_def Let_def)

theorem search_matches_substring_witness:
  "cmd_search (take 50) (Some ''B'') \<lparr>data = [j1, j2, j3], file = Missing, stdin = [], stdout = []\<rparr>
     = Inr \<lparr>data = [j1, j2, j3], file = Missing, stdin = [],
            stdout = [Print ''Search results:'', Print ''2) b'']\<rparr>
   \<and> cmd_search (take 50) (Some ''Z'') \<lparr>data = [j1, j2, j3], file = Missing, stdin = [], stdout = []\<rparr>
     = Inr \<lparr>data = [j1, j2, j3], file = Missing, stdin = [],
            stdout = [Print ''Search results:'', Print ''No results found.'']\<rparr>
   \<and> cmd_search (take 50) None \<lparr>data = [j1, j2, j3], file = Missing, stdin = [''  r ''], stdout = []\<rparr>
     = Inr \<lparr>data = [j1, j2, j3], file = Missing, stdin = [],
            stdout = [Prompt ''Enter search term: '', Print ''Search results:'', Print ''3) c'']\<rparr>"
proof -
  let ?S = "\<lparr>data = [j1, j2, j3], file = Missing, stdin = [], stdout = []\<rparr>"
  let ?T = "\<lparr>data = [j1, j2, j3], file = Missing, stdin = [''  r ''], stdout = []\<rparr>"
  let ?T1 = "\<lparr>data = [j1, j2, j3], file = Missing, stdin = [],
              stdout = [Prompt ''Enter search term: '']\<rparr>"
  have e: "enumerate 1 [j1, j2, j3] = [(1, j1), (2, j2), (3, j3)]"
    by (simp add: enumerate_eq_zip upt_rec)
  from search_matches_substring [of ?S "take 50" "Some ''B''" "''B''" ?S]
  have 1: "cmd_search (take 50) (Some ''B'') ?S
     = Inr \<lparr>data = [j1, j2, j3], file = Missing, stdin = [],
            stdout = [Print ''Search results:'', Print ''2) b'']\<rparr>"
    by (simp add: e j1_def j2_def j3_def lower_examples py_in_sublist [symmetric]
        str_nat.simps digit_char_def)
  from search_matches_substring [of ?S "take 50" "Some ''Z''" "''Z''" ?S]
  have 2: "cmd_search (take 50) (Some ''Z'') ?S
     = Inr \<lparr>data = [j1, j2, j3], file = Missing, stdin = [],
            stdout = [Print ''Search results:'', Print ''No results found.'']\<rparr>"
    by (simp add: e j1_def j2_def j3_def lower_examples py_in_sublist [symmetric])
  from search_matches_substring [of ?T "take 50" None "''r''" ?T1 "''  r ''" "[]"]
  have 3: "cmd_search (take 50) None ?T
     = Inr \<lparr>data = [j1, j2, j3], file = Missing, stdin = [],
            stdout = [Prompt ''Enter search term: '', Print ''Search results:'', Print ''3) c'']\<rparr>"
    by (simp add: e j1_def j2_def j3_def lower_examples py_in_sublist [symmetric] strip_example
        str_nat.simps digit_char_def)
  from 1 2 3 show ?thesis by blast
qed

end
